theory Spec2Isabelle
  imports Main "HOL-Library.Word" "HOL-Library.Signed_Division"
begin

unbundle bit_operations_syntax

section \<open>Data model of filesys/inode.c\<close>

text \<open>
  Sector addresses (\<open>block_sector_t\<close>) are unsigned 32-bit words; the value \<open>-1\<close> stored
  in one is the all-ones word. File offsets (\<open>off_t\<close>, a signed 32-bit integer in the
  source) are integers; C's \<open>/\<close> and \<open>%\<close> truncate towards zero and are written
  \<open>sdiv\<close> and \<open>smod\<close>. Arithmetic on offsets is that of the integers: an execution
  in which a signed 32-bit operation overflows is undefined in C and is not described.
\<close>

type_synonym byte = "8 word"
type_synonym block_sector_t = "32 word"
type_synonym off_t = int

text \<open>
  Modelled from the spec: \<open>BLOCK_SECTOR_SIZE\<close>, which devices/block.h defines and the
  sources do not hold: the fixed sector size \<open>S\<close> = 512 bytes, the size of 128 four-byte
  entries.
\<close>

abbreviation BLOCK_SECTOR_SIZE :: int where
  "BLOCK_SECTOR_SIZE \<equiv> 512"

abbreviation INODE_MAGIC :: "32 word" where
  "INODE_MAGIC \<equiv> 0x494e4f44"

text \<open>
  \<open>struct inode_disk\<close>: \<open>direct\<close> holds 10 entries and \<open>unused\<close> 114, so that the
  structure fills one sector. The field \<open>length\<close> is kept as the stored 32-bit word and
  read as a signed number.
\<close>

record inode_disk =
  direct :: "block_sector_t list"
  single_level :: block_sector_t
  double_level :: block_sector_t
  length_d :: "32 word"
  magic :: "32 word"
  unused :: "32 word list"

text \<open>
  \<open>struct inode\<close>. The list element and the lock are not fields of the model:
  membership in the list of open inodes is the list \<open>open_inodes\<close> of the state below.
\<close>

record inode =
  sector :: block_sector_t
  open_cnt :: int
  removed :: bool
  deny_write_cnt :: int
  data :: inode_disk

datatype io_event = Rd block_sector_t | Wr block_sector_t

text \<open>
  The state the functions of inode.c work on: the contents of \<open>fs_device\<close>, the device
  accesses made so far (oldest first), the free map, the global list \<open>open_inodes\<close> (a
  list of addresses of in-memory inodes, front first), the memory holding the in-memory
  inodes, and the set of addresses \<open>malloc\<close> has handed out and \<open>free\<close> has not taken
  back.
\<close>

record fs =
  fs_device :: "block_sector_t \<Rightarrow> byte list"
  io_log :: "io_event list"
  free_map :: "block_sector_t list"
  open_inodes :: "nat list"
  heap :: "nat \<Rightarrow> inode"
  live :: "nat set"

subsection \<open>The block device\<close>

text \<open>
  Modelled from the spec: \<open>block_read\<close> of the block device (devices/block.c is not among
  the sources), the spec's \<open>read_sector(addr) -> S-byte buffer\<close>. The device answers for
  every address; what a device does with an address beyond its last sector is not
  described. Every access is recorded in \<open>io_log\<close>.
\<close>

definition block_read :: "fs \<Rightarrow> block_sector_t \<Rightarrow> byte list \<times> fs" where
  "block_read s sec = (fs_device s sec, s\<lparr>io_log := io_log s @ [Rd sec]\<rparr>)"

text \<open>
  Modelled from the spec: \<open>block_write\<close> of the block device, the spec's
  \<open>write_sector(addr, S-byte buffer)\<close>.
\<close>

definition block_write :: "fs \<Rightarrow> block_sector_t \<Rightarrow> byte list \<Rightarrow> fs" where
  "block_write s sec buf =
     s\<lparr>fs_device := (fs_device s)(sec := buf), io_log := io_log s @ [Wr sec]\<rparr>"

subsection \<open>The free map\<close>

text \<open>
  Modelled from the spec: \<open>free_map_allocate\<close> of the block allocator (filesys/free-map.c
  is not among the sources), the spec's \<open>allocate(count) -> list of sector addresses\<close>,
  which may give fewer than asked or none; inode.c asks for one sector at a time. The free
  sectors are a list: allocation takes its head and fails on the empty list.
\<close>

definition free_map_allocate :: "fs \<Rightarrow> block_sector_t option \<times> fs" where
  "free_map_allocate s =
     (case free_map s of
        [] \<Rightarrow> (None, s)
      | x # xs \<Rightarrow> (Some x, s\<lparr>free_map := xs\<rparr>))"

text \<open>
  Modelled from the spec: \<open>free_map_release\<close> of the block allocator, the spec's
  \<open>release(addr, count)\<close>, called with a count of 1 only: the sector is appended to the
  free sectors.
\<close>

definition free_map_release :: "fs \<Rightarrow> block_sector_t \<Rightarrow> fs" where
  "free_map_release s sec = s\<lparr>free_map := free_map s @ [sec]\<rparr>"

subsection \<open>Sectors as structures\<close>

text \<open>
  The device holds bytes; \<open>block_read\<close> into a \<open>struct inode_disk\<close> or a
  \<open>struct inode_disk_level\<close> reads them as 128 little-endian 32-bit words (the
  source runs on 32-bit x86).
\<close>

definition le32_bytes :: "32 word \<Rightarrow> byte list" where
  "le32_bytes w = [ucast w, ucast (drop_bit 8 w), ucast (drop_bit 16 w), ucast (drop_bit 24 w)]"

definition le32_word :: "byte list \<Rightarrow> 32 word" where
  "le32_word bs =
     ucast (bs ! 0) OR push_bit 8 (ucast (bs ! 1)) OR push_bit 16 (ucast (bs ! 2))
       OR push_bit 24 (ucast (bs ! 3))"

definition sector_words :: "byte list \<Rightarrow> 32 word list" where
  "sector_words bs = map (\<lambda>k. le32_word (take 4 (drop (4 * k) bs))) [0..<128]"

definition words_sector :: "32 word list \<Rightarrow> byte list" where
  "words_sector ws = concat (map le32_bytes ws)"

text \<open>\<open>struct inode_disk_level\<close>: the array \<open>index[128]\<close>.\<close>

definition decode_level :: "byte list \<Rightarrow> block_sector_t list" where
  "decode_level bs = sector_words bs"

definition encode_level :: "block_sector_t list \<Rightarrow> byte list" where
  "encode_level ix = words_sector ix"

definition decode_inode :: "byte list \<Rightarrow> inode_disk" where
  "decode_inode bs =
     (let ws = sector_words bs
      in \<lparr>direct = take 10 ws, single_level = ws ! 10, double_level = ws ! 11,
          length_d = ws ! 12, magic = ws ! 13, unused = drop 14 ws\<rparr>)"

definition encode_inode :: "inode_disk \<Rightarrow> byte list" where
  "encode_inode d =
     words_sector (direct d @ [single_level d, double_level d, length_d d, magic d] @ unused d)"

section \<open>Address translation\<close>

text \<open>
  \<open>byte_to_sector\<close>. The inode is given by its address, which is not null
  (\<open>ASSERT (inode != NULL)\<close>). A negative quotient takes the first branch and indexes
  \<open>direct\<close> below its first entry, which C leaves undefined: the model returns \<open>None\<close>.
\<close>

definition byte_to_sector :: "fs \<Rightarrow> nat \<Rightarrow> off_t \<Rightarrow> (block_sector_t \<times> fs) option" where
  "byte_to_sector s inode pos =
     (let disk_inode = data (heap s inode);
          quotient = pos sdiv BLOCK_SECTOR_SIZE
      in if quotient < 10 then
           (if quotient < 0 then None else Some (direct disk_inode ! nat quotient, s))
         else
           let quotient = quotient - 10
           in if quotient < 128 then
                (let (buffer, s1) = block_read s (single_level disk_inode)
                 in Some (decode_level buffer ! nat quotient, s1))
              else
                let quotient = quotient - 128
                in if quotient < 128 * 128 then
                     (let remainder = quotient smod 128;
                          quotient = quotient sdiv 128;
                          (buffer, s1) = block_read s (double_level disk_inode);
                          (buffer, s2) = block_read s1 (decode_level buffer ! nat quotient)
                      in Some (decode_level buffer ! nat remainder, s2))
                   else Some (- 1, s))"

section \<open>Handles and the list of open inodes\<close>

text \<open>
  A handle is a pointer to a \<open>struct inode\<close>: \<open>None\<close> is the null pointer, \<open>Some a\<close>
  the address \<open>a\<close>. \<open>inode_open\<close> takes what \<open>malloc\<close> returns when it is called as its
  last argument.
\<close>

text \<open>\<open>inode_init\<close>: \<open>list_init (&open_inodes)\<close>.\<close>

definition inode_init :: "fs \<Rightarrow> fs" where
  "inode_init s = s\<lparr>open_inodes := []\<rparr>"

definition inode_reopen :: "fs \<Rightarrow> nat option \<Rightarrow> nat option \<times> fs" where
  "inode_reopen s inode =
     (case inode of
        None \<Rightarrow> (None, s)
      | Some a \<Rightarrow>
          (Some a, s\<lparr>heap := (heap s)(a := (heap s a)\<lparr>open_cnt := open_cnt (heap s a) + 1\<rparr>)\<rparr>))"

definition inode_open :: "fs \<Rightarrow> block_sector_t \<Rightarrow> nat option \<Rightarrow> nat option \<times> fs" where
  "inode_open s sec m =
     (case find (\<lambda>a. sector (heap s a) = sec) (open_inodes s) of
        Some a \<Rightarrow> inode_reopen s (Some a)
      | None \<Rightarrow>
          (case m of
             None \<Rightarrow> (None, s)
           | Some a \<Rightarrow>
               let s1 = s\<lparr>live := insert a (live s), open_inodes := a # open_inodes s\<rparr>;
                   (buf, s2) = block_read s1 sec
               in (Some a,
                   s2\<lparr>heap := (heap s2)(a :=
                        \<lparr>sector = sec, open_cnt = 1, removed = False, deny_write_cnt = 0,
                         data = decode_inode buf\<rparr>)\<rparr>)))"

definition inode_get_inumber :: "fs \<Rightarrow> nat \<Rightarrow> block_sector_t" where
  "inode_get_inumber s inode = sector (heap s inode)"

definition inode_length :: "fs \<Rightarrow> nat \<Rightarrow> off_t" where
  "inode_length s inode = sint (length_d (data (heap s inode)))"

definition inode_remove :: "fs \<Rightarrow> nat \<Rightarrow> fs" where
  "inode_remove s inode = s\<lparr>heap := (heap s)(inode := (heap s inode)\<lparr>removed := True\<rparr>)\<rparr>"

text \<open>
  The loops of \<open>inode_close\<close> that give sectors back. \<open>release_run\<close> walks the entries of
  one array in index order, releases each and stops at the first \<open>-1\<close>; its second
  result tells whether it stopped there (the \<open>goto done\<close>).
\<close>

fun release_run :: "fs \<Rightarrow> block_sector_t list \<Rightarrow> fs \<times> bool" where
  "release_run s [] = (s, False)"
| "release_run s (x # xs) =
     (if x = - 1 then (s, True) else release_run (free_map_release s x) xs)"

text \<open>
  The double level: for each entry of the outer block, the inner block is read, its
  entries are released up to the first \<open>-1\<close>, then the inner block. Every exit of the
  source releases \<open>double_level\<close> last, which the caller does.
\<close>

fun release_double :: "fs \<Rightarrow> block_sector_t list \<Rightarrow> fs" where
  "release_double s [] = s"
| "release_double s (x # xs) =
     (if x = - 1 then s
      else
        let (buffer2, s1) = block_read s x;
            (s2, stop) = release_run s1 (decode_level buffer2);
            s3 = free_map_release s2 x
        in if stop then s3 else release_double s3 xs)"

definition release_blocks :: "fs \<Rightarrow> inode \<Rightarrow> fs" where
  "release_blocks s ino =
     (let s0 = free_map_release s (sector ino);
          (s1, stop) = release_run s0 (direct (data ino))
      in if stop then s1
         else if single_level (data ino) = - 1 then s1
         else
           let (buffer1, s2) = block_read s1 (single_level (data ino));
               (s3, stop) = release_run s2 (decode_level buffer1);
               s4 = free_map_release s3 (single_level (data ino))
           in if stop then s4
              else if double_level (data ino) = - 1 then s4
              else
                let (buffer1, s5) = block_read s4 (double_level (data ino));
                    s6 = release_double s5 (decode_level buffer1)
                in free_map_release s6 (double_level (data ino)))"

definition inode_close :: "fs \<Rightarrow> nat option \<Rightarrow> fs" where
  "inode_close s inode =
     (case inode of
        None \<Rightarrow> s
      | Some a \<Rightarrow>
          let cnt = open_cnt (heap s a) - 1;
              s1 = s\<lparr>heap := (heap s)(a := (heap s a)\<lparr>open_cnt := cnt\<rparr>)\<rparr>
          in if cnt = 0 then
               (let s2 = s1\<lparr>open_inodes := removeAll a (open_inodes s1)\<rparr>;
                    s3 = (if removed (heap s2 a) then release_blocks s2 (heap s2 a) else s2)
                in s3\<lparr>live := live s3 - {a}\<rparr>)
             else s1)"

definition inode_deny_write :: "fs \<Rightarrow> nat \<Rightarrow> fs option" where
  "inode_deny_write s inode =
     (let s1 = s\<lparr>heap := (heap s)(inode :=
                 (heap s inode)\<lparr>deny_write_cnt := deny_write_cnt (heap s inode) + 1\<rparr>)\<rparr>
      in if deny_write_cnt (heap s1 inode) \<le> open_cnt (heap s1 inode) then Some s1 else None)"

definition inode_allow_write :: "fs \<Rightarrow> nat \<Rightarrow> fs option" where
  "inode_allow_write s inode =
     (if deny_write_cnt (heap s inode) > 0
         \<and> deny_write_cnt (heap s inode) \<le> open_cnt (heap s inode)
      then Some (s\<lparr>heap := (heap s)(inode :=
                   (heap s inode)\<lparr>deny_write_cnt := deny_write_cnt (heap s inode) - 1\<rparr>)\<rparr>)
      else None)"

definition inode_deny_cnt :: "fs \<Rightarrow> nat \<Rightarrow> int" where
  "inode_deny_cnt s inode = deny_write_cnt (heap s inode)"

text \<open>
  \<open>inode_create\<close>: \<open>mem\<close> tells whether \<open>calloc\<close> succeeds; \<open>None\<close> is the failed
  assertion \<open>length >= 0\<close>. The argument \<open>length\<close> is not stored.
\<close>

definition inode_create :: "fs \<Rightarrow> block_sector_t \<Rightarrow> off_t \<Rightarrow> bool \<Rightarrow> (bool \<times> fs) option" where
  "inode_create s sec len mem =
     (if len < 0 then None
      else if mem then
        Some (True,
          block_write s sec
            (encode_inode
               \<lparr>direct = replicate 10 (- 1), single_level = - 1, double_level = - 1,
                length_d = 0, magic = INODE_MAGIC, unused = replicate 114 0\<rparr>))
      else Some (False, s))"

section \<open>Reading\<close>

text \<open>
  The loop of \<open>inode_read_at\<close>. \<open>buffer\<close> is what has been stored into the caller's
  buffer so far (its first \<open>bytes_read\<close> bytes); \<open>bounce\<close> tells whether the bounce
  buffer has been allocated, and \<open>mem\<close> whether \<open>malloc\<close> succeeds when the loop
  calls it. \<open>None\<close> is undefined behaviour in C: the array access of \<open>byte_to_sector\<close>
  below \<open>direct\<close>, or a \<open>memcpy\<close> from below the bounce buffer (a negative
  \<open>sector_ofs\<close>).
\<close>

function read_loop ::
  "fs \<Rightarrow> nat \<Rightarrow> bool \<Rightarrow> off_t \<Rightarrow> off_t \<Rightarrow> off_t \<Rightarrow> bool \<Rightarrow> byte list
     \<Rightarrow> (off_t \<times> byte list \<times> fs) option" where
  "read_loop s inode mem sz offset bytes_read bounce buffer =
     (if sz > 0 then
        (case byte_to_sector s inode offset of
           None \<Rightarrow> None
         | Some (sector_idx, s1) \<Rightarrow>
             let sector_ofs = offset smod BLOCK_SECTOR_SIZE;
                 inode_left = inode_length s1 inode - offset;
                 sector_left = BLOCK_SECTOR_SIZE - sector_ofs;
                 min_left = (if inode_left < sector_left then inode_left else sector_left);
                 chunk_size = (if sz < min_left then sz else min_left)
             in if chunk_size \<le> 0 then Some (bytes_read, buffer, s1)
                else if sector_ofs = 0 \<and> chunk_size = BLOCK_SECTOR_SIZE then
                  (let (blk, s2) = block_read s1 sector_idx
                   in read_loop s2 inode mem (sz - chunk_size) (offset + chunk_size)
                        (bytes_read + chunk_size) bounce (buffer @ blk))
                else if \<not> bounce \<and> \<not> mem then Some (bytes_read, buffer, s1)
                else if sector_ofs < 0 then None
                else
                  (let (blk, s2) = block_read s1 sector_idx
                   in read_loop s2 inode mem (sz - chunk_size) (offset + chunk_size)
                        (bytes_read + chunk_size) True
                        (buffer @ take (nat chunk_size) (drop (nat sector_ofs) blk))))
      else Some (bytes_read, buffer, s))"
  by pat_completeness auto
termination
  by (relation "measure (\<lambda>(s, inode, mem, sz, offset, bytes_read, bounce, buffer). nat sz)")
    (auto split: if_splits)

definition inode_read_at ::
  "fs \<Rightarrow> nat \<Rightarrow> bool \<Rightarrow> off_t \<Rightarrow> off_t \<Rightarrow> (off_t \<times> byte list \<times> fs) option" where
  "inode_read_at s inode mem sz offset =
     (let len = sint (length_d (data (heap s inode)))
      in if offset + sz > len then
           (let diff = offset + sz - len;
                sz = sz - diff
            in if sz < 0 then Some (0, [], s)
               else read_loop s inode mem sz offset 0 False [])
         else read_loop s inode mem sz offset 0 False [])"

section \<open>Growth\<close>

text \<open>
  The first loop of \<open>file_extension\<close>: up to \<open>n\<close> calls of \<open>free_map_allocate\<close>, stopping at
  the first that fails. The result is \<open>slist[0..i)\<close>.
\<close>

fun alloc_sectors :: "fs \<Rightarrow> nat \<Rightarrow> block_sector_t list \<times> fs" where
  "alloc_sectors s 0 = ([], s)"
| "alloc_sectors s (Suc n) =
     (case free_map_allocate s of
        (None, s1) \<Rightarrow> ([], s1)
      | (Some x, s1) \<Rightarrow> (let (xs, s2) = alloc_sectors s1 n in (x # xs, s2)))"

text \<open>
  The loop that \<open>file_extension\<close> runs over \<open>direct\<close>, over the single-level block and over
  each inner block of the double level: every entry that is \<open>-1\<close> takes \<open>slist[iter++]\<close>,
  and the loop leaves for \<open>fin\<close> when \<open>slist[iter]\<close> is then \<open>-1\<close>. The results are the
  array, \<open>iter\<close>, whether an entry was written, and whether the loop left for \<open>fin\<close>.
\<close>

fun fill_slots ::
  "block_sector_t list \<Rightarrow> block_sector_t list \<Rightarrow> nat
     \<Rightarrow> block_sector_t list \<times> nat \<times> bool \<times> bool" where
  "fill_slots [] slist iter = ([], iter, False, False)"
| "fill_slots (x # xs) slist iter =
     (if x = - 1 then
        (if slist ! Suc iter = - 1 then (slist ! iter # xs, Suc iter, True, True)
         else
           let (xs', iter', written, fin) = fill_slots xs slist (Suc iter)
           in (slist ! iter # xs', iter', True, fin))
      else
        let (xs', iter', written, fin) = fill_slots xs slist iter
        in (x # xs', iter', written, fin))"

text \<open>
  The code after the label \<open>fin\<close>. \<open>level1\<close> and \<open>level2\<close> are \<open>None\<close> while the source's
  pointers are null; \<open>level2_1\<close> and \<open>level2_2\<close> are allocated together. \<open>i\<close> is the
  value of the loop variable on arrival.
\<close>

definition extension_fin ::
  "fs \<Rightarrow> nat \<Rightarrow> inode_disk \<Rightarrow> off_t \<Rightarrow> block_sector_t list option
     \<Rightarrow> (block_sector_t list \<times> block_sector_t list) option \<Rightarrow> nat \<Rightarrow> fs" where
  "extension_fin s inode disk_inode modified_length level1 level2 i =
     (let disk_inode = disk_inode\<lparr>length_d := word_of_int modified_length\<rparr>;
          s1 = block_write s (sector (heap s inode)) (encode_inode disk_inode);
          s2 = s1\<lparr>heap := (heap s1)(inode := (heap s1 inode)\<lparr>data := disk_inode\<rparr>)\<rparr>;
          s3 = (case level1 of
                  None \<Rightarrow> s2
                | Some l1 \<Rightarrow> block_write s2 (single_level (data (heap s2 inode))) (encode_level l1));
          s4 = (case level2 of
                  None \<Rightarrow> s3
                | Some (level2_1, level2_2) \<Rightarrow>
                    let i = (if i = 128 then i - 1 else i)
                    in block_write s3 (level2_1 ! i) (encode_level level2_2))
      in case level2 of
           None \<Rightarrow> s4
         | Some (level2_1, level2_2) \<Rightarrow>
             block_write s4 (double_level (data (heap s4 inode))) (encode_level level2_1))"

text \<open>
  The loop over the outer block of the double level. \<open>index\<close> is the local variable that
  \<open>free_map_allocate\<close> stores into; a failed call leaves it as it was. The result holds
  the value of \<open>i\<close> on leaving the loop.
\<close>

function extend_double ::
  "fs \<Rightarrow> block_sector_t list \<Rightarrow> block_sector_t list \<Rightarrow> block_sector_t
     \<Rightarrow> block_sector_t list \<Rightarrow> nat \<Rightarrow> nat
     \<Rightarrow> fs \<times> block_sector_t list \<times> block_sector_t list \<times> nat" where
  "extend_double s level2_1 level2_2 index slist iter i =
     (if i < 128 then
        (let (s1, level2_1, level2_2, index) =
               (if level2_1 ! i = - 1 then
                  (let (r, s1) = free_map_allocate s;
                       index = (case r of Some x \<Rightarrow> x | None \<Rightarrow> index)
                   in (s1, level2_1[i := index], replicate 128 (- 1), index))
                else
                  (let (buf, s1) = block_read s (level2_1 ! i)
                   in (s1, level2_1, decode_level buf, index)));
             (level2_2, iter, written, fin) = fill_slots level2_2 slist iter
         in if fin then (s1, level2_1, level2_2, i)
            else
              let s2 = (if written then block_write s1 (level2_1 ! i) (encode_level level2_2)
                        else s1)
              in extend_double s2 level2_1 level2_2 index slist iter (Suc i))
      else (s, level2_1, level2_2, i))"
  by pat_completeness auto
termination
  by (relation "measure (\<lambda>(s, level2_1, level2_2, index, slist, iter, i). 128 - i)") auto

text \<open>
  \<open>file_extension\<close>. \<open>index0\<close> is the indeterminate first value of the local \<open>index\<close>.
  The list \<open>slist\<close> is the allocated sectors followed by \<open>-1\<close>. The calls of \<open>malloc\<close>,
  whose results the source does not test, succeed, and \<open>slist\<close> has room for what is
  stored in it. Step 2 of the source only calls \<open>byte_to_sector\<close>: the two \<open>memset\<close>
  calls that would fill with zeroes are comments. The model is sequential: the lock
  \<open>FILELOCK\<close> is left out.
\<close>

definition file_extension :: "fs \<Rightarrow> nat \<Rightarrow> off_t \<Rightarrow> off_t \<Rightarrow> block_sector_t \<Rightarrow> fs option" where
  "file_extension s inode sz offset index0 =
     (let len = sint (length_d (data (heap s inode)));
          alloc = (if len \<noteq> 0 then (len - 1) sdiv BLOCK_SECTOR_SIZE + 1 else 0);
          req = (offset + sz - 1) sdiv BLOCK_SECTOR_SIZE + 1;
          (got, s1) = alloc_sectors s (nat (req - alloc));
          i = int (length got);
          slist = got @ [- 1];
          add_length = BLOCK_SECTOR_SIZE - (len smod BLOCK_SECTOR_SIZE) + i * BLOCK_SECTOR_SIZE;
          modified_length = len + add_length
      in case (if len smod BLOCK_SECTOR_SIZE \<noteq> 0
               then map_option snd (byte_to_sector s1 inode len) else Some s1) of
           None \<Rightarrow> None
         | Some s2 \<Rightarrow>
             Some
               (let disk_inode = data (heap s2 inode)
                in if slist ! 0 = - 1
                   then extension_fin s2 inode disk_inode modified_length None None 0
                   else
                     let (d, iter, written, fin) = fill_slots (direct disk_inode) slist 0;
                         disk_inode = disk_inode\<lparr>direct := d\<rparr>
                     in if fin
                        then extension_fin s2 inode disk_inode modified_length None None 0
                        else
                          let (s3, disk_inode, index, level1) =
                                (if single_level disk_inode = - 1 then
                                   (let (r, s3) = free_map_allocate s2;
                                        index = (case r of Some x \<Rightarrow> x | None \<Rightarrow> index0)
                                    in (s3, disk_inode\<lparr>single_level := index\<rparr>, index,
                                        replicate 128 (- 1)))
                                 else
                                   (let (buf, s3) = block_read s2 (single_level disk_inode)
                                    in (s3, disk_inode, index0, decode_level buf)));
                              (level1, iter, written, fin) = fill_slots level1 slist iter
                          in if fin
                             then extension_fin s3 inode disk_inode modified_length
                                    (Some level1) None 0
                             else
                               let (s4, disk_inode, index, level2_1) =
                                     (if double_level disk_inode = - 1 then
                                        (let (r, s4) = free_map_allocate s3;
                                             index = (case r of Some x \<Rightarrow> x | None \<Rightarrow> index)
                                         in (s4, disk_inode\<lparr>double_level := index\<rparr>, index,
                                             replicate 128 (- 1)))
                                      else
                                        (let (buf, s4) = block_read s3 (double_level disk_inode)
                                         in (s4, disk_inode, index, decode_level buf)));
                                   (s5, level2_1, level2_2, i) =
                                     extend_double s4 level2_1 [] index slist iter 0
                               in extension_fin s5 inode disk_inode modified_length
                                    (Some level1) (Some (level2_1, level2_2)) i))"

section \<open>Writing\<close>

text \<open>
  The loop of \<open>inode_write_at\<close>. \<open>bounce\<close> is the bounce buffer, \<open>None\<close> while the pointer
  is null. The statement \<open>bounce == malloc (BLOCK_SECTOR_SIZE)\<close> of the source compares and
  assigns nothing, so the test that follows it sees \<open>bounce\<close> as it was.
\<close>

function write_loop ::
  "fs \<Rightarrow> nat \<Rightarrow> byte list \<Rightarrow> off_t \<Rightarrow> off_t \<Rightarrow> off_t \<Rightarrow> byte list option
     \<Rightarrow> (off_t \<times> fs) option" where
  "write_loop s inode buffer sz offset bytes_written bounce =
     (if sz > 0 then
        (case byte_to_sector s inode offset of
           None \<Rightarrow> None
         | Some (sector_idx, s1) \<Rightarrow>
             let sector_ofs = offset smod BLOCK_SECTOR_SIZE;
                 inode_left = inode_length s1 inode - offset;
                 sector_left = BLOCK_SECTOR_SIZE - sector_ofs;
                 min_left = (if inode_left < sector_left then inode_left else sector_left);
                 chunk_size = (if sz < min_left then sz else min_left)
             in if chunk_size \<le> 0 then Some (bytes_written, s1)
                else if sector_ofs = 0 \<and> chunk_size = BLOCK_SECTOR_SIZE then
                  write_loop
                    (block_write s1 sector_idx (take 512 (drop (nat bytes_written) buffer)))
                    inode buffer (sz - chunk_size) (offset + chunk_size)
                    (bytes_written + chunk_size) bounce
                else
                  (case bounce of
                     None \<Rightarrow> Some (bytes_written, s1)
                   | Some b \<Rightarrow>
                       if sector_ofs < 0 then None
                       else
                       let (b1, s2) =
                             (if sector_ofs > 0 \<and> chunk_size < sector_left
                              then block_read s1 sector_idx
                              else (replicate 512 0, s1));
                           b2 = take (nat sector_ofs) b1
                                  @ take (nat chunk_size) (drop (nat bytes_written) buffer)
                                  @ drop (nat (sector_ofs + chunk_size)) b1
                       in write_loop (block_write s2 sector_idx b2) inode buffer
                            (sz - chunk_size) (offset + chunk_size)
                            (bytes_written + chunk_size) (Some b2)))
      else Some (bytes_written, s))"
  by pat_completeness auto
termination
  by (relation "measure (\<lambda>(s, inode, buffer, sz, offset, bytes_written, bounce). nat sz)")
    (auto split: if_splits)

text \<open>
  \<open>inode_write_at\<close>; \<open>buffer\<close> holds the caller's bytes, \<open>sz\<close> is the source's \<open>size\<close>, and \<open>index0\<close> is passed on
  to \<open>file_extension\<close>.
\<close>

definition inode_write_at ::
  "fs \<Rightarrow> nat \<Rightarrow> byte list \<Rightarrow> off_t \<Rightarrow> off_t \<Rightarrow> block_sector_t \<Rightarrow> (off_t \<times> fs) option" where
  "inode_write_at s inode buffer sz offset index0 =
     (if deny_write_cnt (heap s inode) \<noteq> 0 then Some (0, s)
      else if offset + sz > sint (length_d (data (heap s inode))) then
        (case file_extension s inode sz offset index0 of
           None \<Rightarrow> None
         | Some s1 \<Rightarrow> write_loop s1 inode buffer sz offset 0 None)
      else write_loop s inode buffer sz offset 0 None)"

section \<open>The sectors a closed, removed file gives back\<close>

text \<open>
  The sectors reachable from a descriptor, as the specification lists them for \<open>close\<close>:
  the descriptor sector, the direct sectors up to the first sentinel, the targets of the
  single-indirect block up to the first sentinel and then that block, and for the double
  level the targets of each inner block up to the first sentinel, then the inner block,
  and at last the outer block. The walk ends at the first sentinel it meets. \<open>rd\<close> reads
  an index block.
\<close>

fun double_sectors :: "(block_sector_t \<Rightarrow> block_sector_t list) \<Rightarrow> block_sector_t list \<Rightarrow> block_sector_t list" where
  "double_sectors rd [] = []"
| "double_sectors rd (x # xs) =
     (if x = - 1 then []
      else takeWhile (\<lambda>y. y \<noteq> - 1) (rd x) @ [x]
             @ (if - 1 \<in> set (rd x) then [] else double_sectors rd xs))"

definition reclaimed_sectors :: "(block_sector_t \<Rightarrow> block_sector_t list) \<Rightarrow> inode \<Rightarrow> block_sector_t list" where
  "reclaimed_sectors rd ino =
     (let d = data ino
      in [sector ino] @ takeWhile (\<lambda>y. y \<noteq> - 1) (direct d)
           @ (if - 1 \<in> set (direct d) \<or> single_level d = - 1 then []
              else takeWhile (\<lambda>y. y \<noteq> - 1) (rd (single_level d)) @ [single_level d]
                     @ (if - 1 \<in> set (rd (single_level d)) \<or> double_level d = - 1 then []
                        else double_sectors rd (rd (double_level d)) @ [double_level d])))"

section \<open>The bytes of a file\<close>



section \<open>The invariant of the list of open inodes\<close>

text \<open>No two inodes on the list \<open>open_inodes\<close> have the same sector.\<close>

definition registry_inv :: "fs \<Rightarrow> bool" where
  "registry_inv s = distinct (map (\<lambda>a. sector (heap s a)) (open_inodes s))"

section \<open>A sample file system\<close>

text \<open>
  A file of 268 sectors (137216 bytes) whose descriptor is in sector 5 and which is open
  once, at address 7: ten direct sectors, a full single-indirect block in sector 20, and a
  double-indirect block in sector 21 with a full inner block in sector 400 and an inner
  block with two entries in sector 401. The concrete instances below are stated on it.
\<close>

definition sample_disk :: inode_disk where
  "sample_disk =
     \<lparr>direct = [100, 101, 102, 103, 104, 105, 106, 107, 108, 109],
      single_level = 20, double_level = 21, length_d = 137216, magic = INODE_MAGIC,
      unused = replicate 114 0\<rparr>"

definition sample_inode :: inode where
  "sample_inode =
     \<lparr>sector = 5, open_cnt = 1, removed = False, deny_write_cnt = 0, data = sample_disk\<rparr>"

definition sample_fs :: fs where
  "sample_fs =
     \<lparr>fs_device = (\<lambda>_. replicate 512 0)
        (5 := encode_inode sample_disk,
         20 := encode_level (replicate 128 300),
         21 := encode_level (400 # 401 # replicate 126 (- 1)),
         400 := encode_level (replicate 128 450),
         401 := encode_level (500 # 501 # replicate 126 (- 1)),
         500 := replicate 512 7,
         501 := replicate 512 9),
      io_log = [],
      free_map = [30, 31, 32],
      open_inodes = [7],
      heap = (\<lambda>_. \<lparr>sector = 0, open_cnt = 0, removed = False, deny_write_cnt = 0,
                     data = \<lparr>direct = [], single_level = 0, double_level = 0, length_d = 0,
                             magic = 0, unused = []\<rparr>\<rparr>)(7 := sample_inode),
      live = {7}\<rparr>"



section \<open>A new file and a write of 1300 bytes\<close>

text \<open>
  A device of which every sector holds the bytes \<open>0xAA\<close>, with the free sectors 1 to 4;
  \<open>new_file\<close> is the state after \<open>inode_create\<close> at sector 0 and \<open>inode_open\<close> of it at
  address 7. \<open>grown_file\<close> and \<open>written_file\<close> are the states that \<open>file_extension\<close> and
  \<open>inode_write_at\<close> reach from it for 1300 bytes at offset 0, as the theorems below show.
\<close>

definition empty_disk :: inode_disk where
  "empty_disk =
     \<lparr>direct = replicate 10 (- 1), single_level = - 1, double_level = - 1,
      length_d = 0, magic = INODE_MAGIC, unused = replicate 114 0\<rparr>"

definition fresh_fs :: fs where
  "fresh_fs =
     \<lparr>fs_device = (\<lambda>_. replicate 512 0xAA),
      io_log = [],
      free_map = [1, 2, 3, 4],
      open_inodes = [],
      heap = (\<lambda>_. \<lparr>sector = 0, open_cnt = 0, removed = False, deny_write_cnt = 0,
                     data = \<lparr>direct = [], single_level = 0, double_level = 0, length_d = 0,
                             magic = 0, unused = []\<rparr>\<rparr>),
      live = {}\<rparr>"

definition new_file :: fs where
  "new_file = snd (inode_open (snd (the (inode_create fresh_fs 0 0 True))) 0 (Some 7))"

definition grown_disk :: inode_disk where
  "grown_disk =
     \<lparr>direct = [1, 2, 3] @ replicate 7 (- 1), single_level = - 1, double_level = - 1,
      length_d = 2048, magic = INODE_MAGIC, unused = replicate 114 0\<rparr>"

definition grown_file :: fs where
  "grown_file = new_file
     \<lparr>fs_device := (fs_device new_file)(0 := encode_inode grown_disk),
      io_log := [Wr 0, Rd 0, Wr 0], free_map := [4],
      heap := (heap new_file)(7 :=
        \<lparr>sector = 0, open_cnt = 1, removed = False, deny_write_cnt = 0, data = grown_disk\<rparr>)\<rparr>"

definition written_file :: fs where
  "written_file = grown_file
     \<lparr>fs_device := (fs_device grown_file)(1 := replicate 512 0x41, 2 := replicate 512 0x41),
      io_log := [Wr 0, Rd 0, Wr 0, Wr 1, Wr 2]\<rparr>"

section \<open>Sectors as structures: decoding what was encoded\<close>

lemma le32_word_bytes: "le32_word (le32_bytes w) = w"
proof (rule bit_word_eqI)
  fix n :: nat
  assume "n < LENGTH(32)"
  then consider "n < 8" | "8 \<le> n \<and> n < 16" | "16 \<le> n \<and> n < 24" | "24 \<le> n \<and> n < 32"
    by fastforce
  then show "bit (le32_word (le32_bytes w)) n = bit w n"
    by cases (auto simp add: le32_word_def le32_bytes_def bit_simps)
qed

lemma length_le32_bytes: "length (le32_bytes w) = 4"
  by (simp add: le32_bytes_def)

lemma take_drop_words_sector:
  "k < length ws \<Longrightarrow> take 4 (drop (4 * k) (words_sector ws)) = le32_bytes (ws ! k)"
proof (induction ws arbitrary: k)
  case Nil
  then show ?case by simp
next
  case (Cons w ws)
  show ?case
  proof (cases k)
    case 0
    then show ?thesis by (simp add: words_sector_def length_le32_bytes)
  next
    case (Suc j)
    with Cons.prems have j: "j < length ws" by simp
    have "drop (4 * k) (words_sector (w # ws)) = drop (4 * j) (words_sector ws)"
      by (simp add: Suc words_sector_def length_le32_bytes)
    with Cons.IH [OF j] show ?thesis by (simp add: Suc)
  qed
qed

lemma sector_words_words_sector:
  assumes "length ws = 128"
  shows "sector_words (words_sector ws) = ws"
proof (rule nth_equalityI)
  show "length (sector_words (words_sector ws)) = length ws"
    by (simp add: sector_words_def assms)
next
  fix i assume "i < length (sector_words (words_sector ws))"
  then have i: "i < 128" by (simp add: sector_words_def)
  then have "sector_words (words_sector ws) ! i = le32_word (take 4 (drop (4 * i) (words_sector ws)))"
    by (simp add: sector_words_def)
  also have "\<dots> = ws ! i"
    using i assms by (simp add: take_drop_words_sector le32_word_bytes)
  finally show "sector_words (words_sector ws) ! i = ws ! i" .
qed

lemma decode_encode_level: "length ix = 128 \<Longrightarrow> decode_level (encode_level ix) = ix"
  by (simp add: decode_level_def encode_level_def sector_words_words_sector)

lemma decode_encode_inode:
  assumes "length (direct d) = 10" and "length (unused d) = 114"
  shows "decode_inode (encode_inode d) = d"
  using assms
  by (simp add: decode_inode_def encode_inode_def sector_words_words_sector Let_def nth_append)

lemma length_decode_level: "length (decode_level bs) = 128"
  by (simp add: decode_level_def sector_words_def)


section \<open>Properties of address translation\<close>

lemma sdiv_nonneg: "0 \<le> a \<Longrightarrow> a sdiv 512 = a div (512::int)"
  by (simp add: signed_divide_int_def sgn_if)

lemma sdiv128_nonneg: "0 \<le> a \<Longrightarrow> a sdiv 128 = a div (128::int)"
  by (simp add: signed_divide_int_def sgn_if)

lemma smod_nonneg: "0 \<le> a \<Longrightarrow> a smod 512 = a mod (512::int)"
  by (simp add: signed_modulo_int_def sgn_if)

lemma smod128_nonneg: "0 \<le> a \<Longrightarrow> a smod 128 = a mod (128::int)"
  by (simp add: signed_modulo_int_def sgn_if)

lemma sdiv_small_neg: "- 512 < a \<Longrightarrow> a < 0 \<Longrightarrow> a sdiv 512 = (0::int)"
  by (simp add: signed_divide_int_def sgn_if div_pos_pos_trivial)

text \<open>
  C5: for a byte offset \<open>pos\<close> whose quotient \<open>q = pos / 512\<close> (C's division) is not
  negative, \<open>byte_to_sector\<close> returns \<open>direct[q]\<close> when \<open>q < 10\<close>; otherwise, with \<open>q\<close>
  reduced by 10, entry \<open>q\<close> of the single-indirect block, read from the device, when
  \<open>q < 128\<close>; otherwise, with \<open>q\<close> reduced by 128 more, entry \<open>q mod 128\<close> of the inner
  block that entry \<open>q div 128\<close> of the double-indirect block names, both read from the
  device, when \<open>q < 128 * 128\<close>; and \<open>-1\<close> otherwise. The stored entry is returned as it
  is, whatever its value.
\<close>

theorem byte_to_sector_tiers:
  "- 512 < pos \<Longrightarrow>
   (let q = pos sdiv 512; d = data (heap s inode)
    in (q < 10 \<longrightarrow> byte_to_sector s inode pos = Some (direct d ! nat q, s)) \<and>
       (10 \<le> q \<and> q - 10 < 128 \<longrightarrow>
          byte_to_sector s inode pos =
            Some (decode_level (fs_device s (single_level d)) ! nat (q - 10),
                  s\<lparr>io_log := io_log s @ [Rd (single_level d)]\<rparr>)) \<and>
       (128 \<le> q - 10 \<and> q - 10 - 128 < 128 * 128 \<longrightarrow>
          byte_to_sector s inode pos =
            (let inner = decode_level (fs_device s (double_level d)) ! nat ((q - 10 - 128) div 128)
             in Some (decode_level (fs_device s inner) ! nat ((q - 10 - 128) mod 128),
                      s\<lparr>io_log := io_log s @ [Rd (double_level d), Rd inner]\<rparr>))) \<and>
       (128 * 128 \<le> q - 10 - 128 \<longrightarrow> byte_to_sector s inode pos = Some (- 1, s)))"
proof -
  assume pos: "- 512 < pos"
  have q0: "0 \<le> pos sdiv 512"
  proof (cases "0 \<le> pos")
    case True
    then show ?thesis by (simp add: sdiv_nonneg)
  next
    case False
    with pos show ?thesis by (simp add: sdiv_small_neg)
  qed
  show ?thesis
    using q0
    by (simp add: byte_to_sector_def Let_def block_read_def sdiv128_nonneg smod128_nonneg)
qed


theorem byte_to_sector_tiers_witness:
  "byte_to_sector sample_fs 7 (- 5) = Some (100, sample_fs) \<and>
   byte_to_sector sample_fs 7 1300 = Some (102, sample_fs) \<and>
   byte_to_sector sample_fs 7 5125 = Some (300, sample_fs\<lparr>io_log := [Rd 20]\<rparr>) \<and>
   byte_to_sector sample_fs 7 136704 = Some (501, sample_fs\<lparr>io_log := [Rd 21, Rd 401]\<rparr>) \<and>
   byte_to_sector sample_fs 7 8459264 = Some (- 1, sample_fs)"
proof -
  have dev: "fs_device sample_fs 20 = encode_level (replicate 128 300)"
    "fs_device sample_fs 21 = encode_level (400 # 401 # replicate 126 (- 1))"
    "fs_device sample_fs 401 = encode_level (500 # 501 # replicate 126 (- 1))"
    by (simp_all add: sample_fs_def)
  have d: "data (heap sample_fs 7) = sample_disk" "io_log sample_fs = []"
    by (simp_all add: sample_fs_def sample_inode_def)
  show ?thesis
    using byte_to_sector_tiers [of "- 5" sample_fs 7]
      byte_to_sector_tiers [of 1300 sample_fs 7]
      byte_to_sector_tiers [of 5125 sample_fs 7]
      byte_to_sector_tiers [of 136704 sample_fs 7]
      byte_to_sector_tiers [of 8459264 sample_fs 7]
    by (simp add: Let_def d dev decode_encode_level sample_disk_def sdiv_nonneg sdiv_small_neg)
qed


section \<open>Writes while writes are denied\<close>

text \<open>
  C4: when the deny-write count of the inode is not zero, \<open>inode_write_at\<close> returns 0 and
  the whole state is as before: the device contents, and the list of device accesses, to
  which nothing is added.
\<close>

theorem write_denied:
  "deny_write_cnt (heap s inode) \<noteq> 0 \<Longrightarrow>
   inode_write_at s inode buffer sz offset index0 = Some (0, s)"
  by (simp add: inode_write_at_def)

theorem write_denied_witness:
  "deny_write_cnt (heap (the (inode_deny_write sample_fs 7)) 7) \<noteq> 0 \<and>
   inode_write_at (the (inode_deny_write sample_fs 7)) 7 [1, 2, 3] 3 0 0
     = Some (0, the (inode_deny_write sample_fs 7))"
proof -
  have h: "deny_write_cnt (heap (the (inode_deny_write sample_fs 7)) 7) \<noteq> 0"
    by (simp add: inode_deny_write_def sample_fs_def sample_inode_def Let_def)
  show ?thesis
    using h write_denied [OF h, of "[1, 2, 3]" 3 0 0] by simp
qed


section \<open>Closing and removing\<close>

lemma release_run_eq:
  "release_run s xs =
     (s\<lparr>free_map := free_map s @ takeWhile (\<lambda>y. y \<noteq> - 1) xs\<rparr>, - 1 \<in> set xs)"
proof (induction xs arbitrary: s)
  case Nil
  show ?case by simp
next
  case (Cons x xs)
  show ?case
    by (auto simp add: Cons.IH free_map_release_def)
qed

lemma release_double_frame:
  "fs_device (release_double s xs) = fs_device s \<and>
   open_inodes (release_double s xs) = open_inodes s \<and>
   heap (release_double s xs) = heap s \<and>
   live (release_double s xs) = live s"
proof (induction xs arbitrary: s)
  case Nil
  show ?case by simp
next
  case (Cons x xs)
  show ?case
    by (simp add: Cons.IH release_run_eq block_read_def free_map_release_def Let_def)
qed

lemma release_double_free_map:
  "free_map (release_double s xs)
     = free_map s @ double_sectors (\<lambda>x. decode_level (fs_device s x)) xs"
proof (induction xs arbitrary: s)
  case Nil
  show ?case by simp
next
  case (Cons x xs)
  show ?case
    by (simp add: Cons.IH release_run_eq block_read_def free_map_release_def Let_def)
qed

lemma release_blocks_frame:
  "fs_device (release_blocks s ino) = fs_device s \<and>
   open_inodes (release_blocks s ino) = open_inodes s \<and>
   heap (release_blocks s ino) = heap s \<and>
   live (release_blocks s ino) = live s"
  by (simp add: release_blocks_def release_run_eq block_read_def free_map_release_def
      Let_def release_double_frame)

lemma release_blocks_free_map:
  "free_map (release_blocks s ino)
     = free_map s @ reclaimed_sectors (\<lambda>x. decode_level (fs_device s x)) ino"
  by (simp add: release_blocks_def reclaimed_sectors_def release_run_eq block_read_def
      free_map_release_def Let_def release_double_free_map release_double_frame)

text \<open>
  C7: when \<open>inode_close\<close> takes the open count from 1 to 0, it appends to the free map,
  if the inode is marked removed, exactly the sectors of \<open>reclaimed_sectors\<close> in that
  order, and nothing otherwise; in both cases the inode is taken off the list of open
  inodes and its memory is freed.
\<close>

theorem close_reclaims:
  "open_cnt (heap s a) = 1 \<Longrightarrow>
   (removed (heap s a) \<longrightarrow>
      free_map (inode_close s (Some a))
        = free_map s @ reclaimed_sectors (\<lambda>x. decode_level (fs_device s x)) (heap s a)) \<and>
   (\<not> removed (heap s a) \<longrightarrow> free_map (inode_close s (Some a)) = free_map s) \<and>
   a \<notin> live (inode_close s (Some a)) \<and>
   a \<notin> set (open_inodes (inode_close s (Some a))) \<and>
   live (inode_close s (Some a)) = live s - {a} \<and>
   fs_device (inode_close s (Some a)) = fs_device s"
  by (simp add: inode_close_def Let_def release_blocks_frame release_blocks_free_map
      reclaimed_sectors_def)


theorem close_reclaims_witness:
  "open_cnt (heap (inode_remove sample_fs 7) 7) = 1 \<and>
   removed (heap (inode_remove sample_fs 7) 7) \<and>
   free_map (inode_close (inode_remove sample_fs 7) (Some 7))
     = [30, 31, 32] @ [5] @ [100, 101, 102, 103, 104, 105, 106, 107, 108, 109]
         @ replicate 128 300 @ [20]
         @ replicate 128 450 @ [400] @ [500, 501] @ [401] @ [21] \<and>
   7 \<notin> live (inode_close (inode_remove sample_fs 7) (Some 7)) \<and>
   7 \<notin> set (open_inodes (inode_close (inode_remove sample_fs 7) (Some 7)))"
proof -
  have h: "open_cnt (heap (inode_remove sample_fs 7) 7) = 1"
    by (simp add: inode_remove_def sample_fs_def sample_inode_def)
  have dev: "fs_device (inode_remove sample_fs 7) 20 = encode_level (replicate 128 300)"
    "fs_device (inode_remove sample_fs 7) 21 = encode_level (400 # 401 # replicate 126 (- 1))"
    "fs_device (inode_remove sample_fs 7) 400 = encode_level (replicate 128 450)"
    "fs_device (inode_remove sample_fs 7) 401 = encode_level (500 # 501 # replicate 126 (- 1))"
    by (simp_all add: inode_remove_def sample_fs_def)
  have ino: "heap (inode_remove sample_fs 7) 7 = sample_inode\<lparr>removed := True\<rparr>"
    "free_map (inode_remove sample_fs 7) = [30, 31, 32]"
    by (simp_all add: inode_remove_def sample_fs_def)
  show ?thesis
    using close_reclaims [OF h]
    by (simp add: ino dev reclaimed_sectors_def decode_encode_level sample_inode_def
        sample_disk_def takeWhile_replicate)
qed


lemma close_not_last:
  "open_cnt (heap s a) \<noteq> 1 \<Longrightarrow>
   inode_close s (Some a) = s\<lparr>heap := (heap s)(a := (heap s a)\<lparr>open_cnt := open_cnt (heap s a) - 1\<rparr>)\<rparr>"
  by (simp add: inode_close_def Let_def)

lemma closes_before_last:
  "open_cnt (heap s a) = int n + 1 \<Longrightarrow> k \<le> n \<Longrightarrow>
   free_map (((\<lambda>t. inode_close t (Some a)) ^^ k) s) = free_map s \<and>
   fs_device (((\<lambda>t. inode_close t (Some a)) ^^ k) s) = fs_device s \<and>
   io_log (((\<lambda>t. inode_close t (Some a)) ^^ k) s) = io_log s \<and>
   open_inodes (((\<lambda>t. inode_close t (Some a)) ^^ k) s) = open_inodes s \<and>
   live (((\<lambda>t. inode_close t (Some a)) ^^ k) s) = live s \<and>
   open_cnt (heap (((\<lambda>t. inode_close t (Some a)) ^^ k) s) a) = int n + 1 - int k \<and>
   removed (heap (((\<lambda>t. inode_close t (Some a)) ^^ k) s) a) = removed (heap s a) \<and>
   sector (heap (((\<lambda>t. inode_close t (Some a)) ^^ k) s) a) = sector (heap s a) \<and>
   (\<forall>b. b \<noteq> a \<longrightarrow> heap (((\<lambda>t. inode_close t (Some a)) ^^ k) s) b = heap s b)"
proof (induction k)
  case 0
  then show ?case by simp
next
  case (Suc k)
  let ?t = "((\<lambda>t. inode_close t (Some a)) ^^ k) s"
  from Suc have IH: "free_map ?t = free_map s" "fs_device ?t = fs_device s"
    "io_log ?t = io_log s" "open_inodes ?t = open_inodes s" "live ?t = live s"
    "open_cnt (heap ?t a) = int n + 1 - int k"
    "removed (heap ?t a) = removed (heap s a)"
    "sector (heap ?t a) = sector (heap s a)"
    "\<forall>b. b \<noteq> a \<longrightarrow> heap ?t b = heap s b"
    by simp_all
  from Suc.prems IH(6) have "open_cnt (heap ?t a) \<noteq> 1" by simp
  then have "inode_close ?t (Some a)
     = ?t\<lparr>heap := (heap ?t)(a := (heap ?t a)\<lparr>open_cnt := open_cnt (heap ?t a) - 1\<rparr>)\<rparr>"
    by (rule close_not_last)
  then show ?case
    using IH by simp
qed

text \<open>
  C8: \<open>inode_remove\<close> only sets the flag \<open>removed\<close>, so the free map is as before; and
  while the open count stays positive (\<open>k\<close> closes of an inode open \<open>n + 1\<close> times,
  \<open>k \<le> n\<close>), closing gives no sector back to the free map.
\<close>

theorem remove_defers_reclamation:
  "inode_remove s a = s\<lparr>heap := (heap s)(a := (heap s a)\<lparr>removed := True\<rparr>)\<rparr> \<and>
   free_map (inode_remove s a) = free_map s \<and>
   (open_cnt (heap s a) = int n + 1 \<and> k \<le> n \<longrightarrow>
      free_map (((\<lambda>t. inode_close t (Some a)) ^^ k) (inode_remove s a)) = free_map s \<and>
      open_cnt (heap (((\<lambda>t. inode_close t (Some a)) ^^ k) (inode_remove s a)) a)
        = int n + 1 - int k)"
proof -
  have "open_cnt (heap (inode_remove s a) a) = open_cnt (heap s a)"
    by (simp add: inode_remove_def)
  then show ?thesis
    by (auto simp add: closes_before_last) (simp_all add: inode_remove_def)
qed


theorem remove_defers_reclamation_witness:
  "open_cnt (heap (snd (inode_reopen (snd (inode_reopen sample_fs (Some 7))) (Some 7))) 7)
     = int 2 + 1 \<and> (2::nat) \<le> 2 \<and>
   free_map (((\<lambda>t. inode_close t (Some 7)) ^^ 2)
      (inode_remove (snd (inode_reopen (snd (inode_reopen sample_fs (Some 7))) (Some 7))) 7))
     = [30, 31, 32] \<and>
   open_cnt (heap (((\<lambda>t. inode_close t (Some 7)) ^^ 2)
      (inode_remove (snd (inode_reopen (snd (inode_reopen sample_fs (Some 7))) (Some 7))) 7)) 7)
     = 1"
proof -
  let ?s = "snd (inode_reopen (snd (inode_reopen sample_fs (Some 7))) (Some 7))"
  have h: "open_cnt (heap ?s 7) = int 2 + 1"
    by (simp add: inode_reopen_def sample_fs_def sample_inode_def)
  have f: "free_map ?s = [30, 31, 32]"
    by (simp add: inode_reopen_def sample_fs_def)
  have k: "(2::nat) \<le> 2" by simp
  from remove_defers_reclamation [of ?s 7 2 2] h k
  have "free_map (((\<lambda>t. inode_close t (Some 7)) ^^ 2) (inode_remove ?s 7)) = free_map ?s \<and>
    open_cnt (heap (((\<lambda>t. inode_close t (Some 7)) ^^ 2) (inode_remove ?s 7)) 7)
      = int 2 + 1 - int 2"
    by blast
  with h k f show ?thesis by simp
qed


section \<open>The list of open inodes\<close>

lemma find_distinct_map:
  "distinct (map f xs) \<Longrightarrow> a \<in> set xs \<Longrightarrow> find (\<lambda>x. f x = f a) xs = Some a"
  by (induction xs) (auto simp add: image_iff)

lemma open_present:
  assumes "registry_inv s" and "a \<in> set (open_inodes s)" and "sector (heap s a) = sec"
  shows "inode_open s sec m =
    (Some a, s\<lparr>heap := (heap s)(a := (heap s a)\<lparr>open_cnt := open_cnt (heap s a) + 1\<rparr>)\<rparr>)"
proof -
  have "find (\<lambda>x. sector (heap s x) = sector (heap s a)) (open_inodes s) = Some a"
    using assms(1,2) unfolding registry_inv_def by (rule find_distinct_map)
  then show ?thesis
    using assms(3) by (simp add: inode_open_def inode_reopen_def)
qed

lemma open_absent:
  assumes "sec \<notin> (\<lambda>a. sector (heap s a)) ` set (open_inodes s)"
  shows "inode_open s sec (Some a) =
      (Some a,
       s\<lparr>live := insert a (live s), open_inodes := a # open_inodes s,
         io_log := io_log s @ [Rd sec],
         heap := (heap s)(a :=
           \<lparr>sector = sec, open_cnt = 1, removed = False, deny_write_cnt = 0,
            data = decode_inode (fs_device s sec)\<rparr>)\<rparr>)"
    and "inode_open s sec None = (None, s)"
proof -
  have "find (\<lambda>a. sector (heap s a) = sec) (open_inodes s) = None"
    using assms by (auto simp add: find_None_iff)
  then show "inode_open s sec (Some a) =
      (Some a,
       s\<lparr>live := insert a (live s), open_inodes := a # open_inodes s,
         io_log := io_log s @ [Rd sec],
         heap := (heap s)(a :=
           \<lparr>sector = sec, open_cnt = 1, removed = False, deny_write_cnt = 0,
            data = decode_inode (fs_device s sec)\<rparr>)\<rparr>)"
    and "inode_open s sec None = (None, s)"
    by (simp_all add: inode_open_def block_read_def Let_def)
qed

lemma sector_upd_open_cnt:
  "(\<lambda>b. sector (if b = a then (h a)\<lparr>open_cnt := c\<rparr> else h b)) = (\<lambda>b. sector (h b))"
  by (rule ext) simp

lemma registry_inv_open:
  assumes "registry_inv s" and "\<And>a. m = Some a \<Longrightarrow> a \<notin> set (open_inodes s)"
  shows "registry_inv (snd (inode_open s sec m))"
proof (cases "sec \<in> (\<lambda>a. sector (heap s a)) ` set (open_inodes s)")
  case True
  then obtain a where a: "a \<in> set (open_inodes s)" "sector (heap s a) = sec" by auto
  show ?thesis
    using assms(1)
    by (simp add: open_present [OF assms(1) a] registry_inv_def sector_upd_open_cnt)
next
  case False
  show ?thesis
  proof (cases m)
    case None
    then show ?thesis using assms(1) by (simp add: open_absent(2) [OF False])
  next
    case (Some a)
    with assms(2) have fresh: "a \<notin> set (open_inodes s)" by simp
    then have eq: "map (\<lambda>b. sector (if b = a then v else heap s b)) (open_inodes s)
        = map (\<lambda>b. sector (heap s b)) (open_inodes s)" for v
      by (intro map_cong) auto
    show ?thesis
      using assms(1) False Some
      by (simp add: open_absent(1) [OF False] registry_inv_def image_iff eq)
  qed
qed

lemma registry_inv_close:
  assumes "registry_inv s"
  shows "registry_inv (inode_close s h)"
proof (cases h)
  case None
  then show ?thesis using assms by (simp add: inode_close_def)
next
  case (Some a)
  have d: "distinct (map (\<lambda>b. sector (heap s b)) (removeAll a (open_inodes s)))"
    using assms unfolding registry_inv_def removeAll_filter_not_eq by (rule distinct_map_filter)
  show ?thesis
    using assms d
    by (simp add: Some inode_close_def Let_def registry_inv_def sector_upd_open_cnt
        release_blocks_frame)
qed

lemma open_head:
  "open_inodes t = a # L \<Longrightarrow> sector (heap t a) = sec \<Longrightarrow>
   inode_open t sec m =
     (Some a, t\<lparr>heap := (heap t)(a := (heap t a)\<lparr>open_cnt := open_cnt (heap t a) + 1\<rparr>)\<rparr>)"
  by (simp add: inode_open_def inode_reopen_def)

lemma opens_again:
  assumes "open_inodes t = a # L" and "sector (heap t a) = sec"
  shows "open_inodes (((\<lambda>t. snd (inode_open t sec (Some a))) ^^ k) t) = a # L \<and>
    sector (heap (((\<lambda>t. snd (inode_open t sec (Some a))) ^^ k) t) a) = sec \<and>
    open_cnt (heap (((\<lambda>t. snd (inode_open t sec (Some a))) ^^ k) t) a) = open_cnt (heap t a) + int k \<and>
    removed (heap (((\<lambda>t. snd (inode_open t sec (Some a))) ^^ k) t) a) = removed (heap t a) \<and>
    (\<forall>b. b \<noteq> a \<longrightarrow> heap (((\<lambda>t. snd (inode_open t sec (Some a))) ^^ k) t) b = heap t b) \<and>
    free_map (((\<lambda>t. snd (inode_open t sec (Some a))) ^^ k) t) = free_map t \<and>
    fs_device (((\<lambda>t. snd (inode_open t sec (Some a))) ^^ k) t) = fs_device t \<and>
    io_log (((\<lambda>t. snd (inode_open t sec (Some a))) ^^ k) t) = io_log t \<and>
    live (((\<lambda>t. snd (inode_open t sec (Some a))) ^^ k) t) = live t \<and>
    fst (inode_open (((\<lambda>t. snd (inode_open t sec (Some a))) ^^ k) t) sec (Some a)) = Some a"
proof (induction k)
  case 0
  show ?case using assms by (simp add: open_head [OF assms])
next
  case (Suc k)
  let ?u = "((\<lambda>t. snd (inode_open t sec (Some a))) ^^ k) t"
  from Suc have IH: "open_inodes ?u = a # L" "sector (heap ?u a) = sec"
    "open_cnt (heap ?u a) = open_cnt (heap t a) + int k"
    "removed (heap ?u a) = removed (heap t a)"
    "\<forall>b. b \<noteq> a \<longrightarrow> heap ?u b = heap t b"
    "free_map ?u = free_map t" "fs_device ?u = fs_device t" "io_log ?u = io_log t"
    "live ?u = live t"
    by simp_all
  let ?v = "snd (inode_open ?u sec (Some a))"
  have v: "?v = ?u\<lparr>heap := (heap ?u)(a := (heap ?u a)\<lparr>open_cnt := open_cnt (heap ?u a) + 1\<rparr>)\<rparr>"
    by (simp add: open_head [OF IH(1,2)])
  have "open_inodes ?v = a # L" "sector (heap ?v a) = sec"
    using IH by (simp_all add: v)
  then have "fst (inode_open ?v sec (Some a)) = Some a"
    by (simp add: open_head)
  then show ?case
    using IH by (simp add: v)
qed

lemma close_last_unremoved:
  assumes "open_cnt (heap t a) = 1" and "\<not> removed (heap t a)"
  shows "inode_close t (Some a) =
    t\<lparr>heap := (heap t)(a := (heap t a)\<lparr>open_cnt := 0\<rparr>),
      open_inodes := removeAll a (open_inodes t), live := live t - {a}\<rparr>"
  using assms by (simp add: inode_close_def Let_def)

lemma opens_then_closes:
  assumes absent: "sec \<notin> (\<lambda>b. sector (heap s b)) ` set (open_inodes s)"
    and fresh: "a \<notin> set (open_inodes s)" and N: "0 < N"
  shows "open_inodes (((\<lambda>t. inode_close t (Some a)) ^^ N)
            (((\<lambda>t. snd (inode_open t sec (Some a))) ^^ N) s)) = open_inodes s"
    and "sec \<notin> (\<lambda>b. sector (heap (((\<lambda>t. inode_close t (Some a)) ^^ N)
            (((\<lambda>t. snd (inode_open t sec (Some a))) ^^ N) s)) b)) ` set (open_inodes s)"
    and "a \<notin> live (((\<lambda>t. inode_close t (Some a)) ^^ N)
            (((\<lambda>t. snd (inode_open t sec (Some a))) ^^ N) s))"
    and "free_map (((\<lambda>t. inode_close t (Some a)) ^^ N)
            (((\<lambda>t. snd (inode_open t sec (Some a))) ^^ N) s)) = free_map s"
    and "\<forall>k<N. fst (inode_open (((\<lambda>t. snd (inode_open t sec (Some a))) ^^ k) s) sec (Some a))
            = Some a"
proof -
  let ?op = "\<lambda>t. snd (inode_open t sec (Some a))"
  let ?cl = "\<lambda>t. inode_close t (Some a)"
  obtain n where n: "N = Suc n" using N by (cases N) auto
  let ?s1 = "?op s"
  have s1: "?s1 = s\<lparr>live := insert a (live s), open_inodes := a # open_inodes s,
         io_log := io_log s @ [Rd sec],
         heap := (heap s)(a :=
           \<lparr>sector = sec, open_cnt = 1, removed = False, deny_write_cnt = 0,
            data = decode_inode (fs_device s sec)\<rparr>)\<rparr>"
    by (simp add: open_absent(1) [OF absent])
  have first: "fst (inode_open s sec (Some a)) = Some a"
    by (simp add: open_absent(1) [OF absent])
  have l1: "open_inodes ?s1 = a # open_inodes s" and sec1: "sector (heap ?s1 a) = sec"
    by (simp_all add: s1)
  let ?s2 = "(?op ^^ n) ?s1"
  note o = opens_again [OF l1 sec1, of n]
  have s2N: "(?op ^^ N) s = ?s2"
    unfolding n using funpow_swap1 [of ?op n s] by simp
  have cnt2: "open_cnt (heap ?s2 a) = int n + 1"
    using o by (simp add: s1)
  let ?s3 = "(?cl ^^ n) ?s2"
  note c = closes_before_last [OF cnt2, of n]
  have cnt3: "open_cnt (heap ?s3 a) = 1" and rem3: "\<not> removed (heap ?s3 a)"
    using c o by (simp_all add: s1)
  have s4N: "(?cl ^^ N) ((?op ^^ N) s) = ?cl ?s3"
    unfolding s2N unfolding n by simp
  have l3: "open_inodes ?s3 = a # open_inodes s"
    using c o by simp
  have s4: "?cl ?s3 = ?s3\<lparr>heap := (heap ?s3)(a := (heap ?s3 a)\<lparr>open_cnt := 0\<rparr>),
      open_inodes := removeAll a (open_inodes ?s3), live := live ?s3 - {a}\<rparr>"
    by (rule close_last_unremoved [OF cnt3 rem3])
  show "open_inodes ((?cl ^^ N) ((?op ^^ N) s)) = open_inodes s"
    using fresh by (simp only: s4N s4) (simp add: l3)
  have others: "b \<noteq> a \<Longrightarrow> heap ?s3 b = heap s b" for b
    using c o by (simp add: s1)
  show "sec \<notin> (\<lambda>b. sector (heap ((?cl ^^ N) ((?op ^^ N) s)) b)) ` set (open_inodes s)"
  proof
    assume "sec \<in> (\<lambda>b. sector (heap ((?cl ^^ N) ((?op ^^ N) s)) b)) ` set (open_inodes s)"
    then obtain b where b: "b \<in> set (open_inodes s)"
      "sec = sector (heap ((?cl ^^ N) ((?op ^^ N) s)) b)" by auto
    from b(1) fresh have ba: "b \<noteq> a" by auto
    have "heap ((?cl ^^ N) ((?op ^^ N) s)) b = heap ?s3 b"
      using ba by (simp only: s4N s4) simp
    with others [OF ba] b absent show False by auto
  qed
  show "a \<notin> live ((?cl ^^ N) ((?op ^^ N) s))"
    by (simp only: s4N s4) simp
  show "free_map ((?cl ^^ N) ((?op ^^ N) s)) = free_map s"
    using c o by (simp only: s4N s4) (simp add: s1)
  show "\<forall>k<N. fst (inode_open ((?op ^^ k) s) sec (Some a)) = Some a"
  proof (intro allI impI)
    fix k assume "k < N"
    show "fst (inode_open ((?op ^^ k) s) sec (Some a)) = Some a"
    proof (cases k)
      case 0
      then show ?thesis using first by simp
    next
      case (Suc j)
      have "(?op ^^ k) s = (?op ^^ j) ?s1"
        unfolding Suc using funpow_swap1 [of ?op j s] by simp
      then show ?thesis
        using opens_again [OF l1 sec1, of j] by simp
    qed
  qed
qed

lemma registry_inv_init: "registry_inv (inode_init s)"
  by (simp add: registry_inv_def inode_init_def)

lemma registry_inv_reopen: "registry_inv s \<Longrightarrow> registry_inv (snd (inode_reopen s h))"
  by (cases h) (simp_all add: registry_inv_def inode_reopen_def sector_upd_open_cnt)

text \<open>
  C9: the list of open inodes never holds two inodes of one sector: the invariant holds
  after \<open>inode_init\<close> and \<open>inode_open\<close> (given that \<open>malloc\<close> returns an address that is
  not on the list), \<open>inode_reopen\<close> and \<open>inode_close\<close> keep it. When the sector is on the
  list, \<open>inode_open\<close> returns that inode with its open count one higher, and nothing else
  changes: no device access, no allocation. When it is not, \<open>inode_open\<close> returns null if
  \<open>malloc\<close> does, and otherwise puts the new inode at the front of the list with open count
  1 and the descriptor read from the device. \<open>N\<close> opens of a sector that was not on the
  list all return the same handle, and \<open>N\<close> closes of it then take the sector off the list.
\<close>

theorem registry_single_handle:
  "registry_inv (inode_init s) \<and>
   (registry_inv s \<and> (\<forall>b. m = Some b \<longrightarrow> b \<notin> set (open_inodes s))
      \<longrightarrow> registry_inv (snd (inode_open s sec m))) \<and>
   (registry_inv s \<longrightarrow> registry_inv (snd (inode_reopen s h))) \<and>
   (registry_inv s \<longrightarrow> registry_inv (inode_close s h)) \<and>
   (registry_inv s \<and> a \<in> set (open_inodes s) \<and> sector (heap s a) = sec \<longrightarrow>
      inode_open s sec m =
        (Some a, s\<lparr>heap := (heap s)(a := (heap s a)\<lparr>open_cnt := open_cnt (heap s a) + 1\<rparr>)\<rparr>)) \<and>
   (sec \<notin> (\<lambda>b. sector (heap s b)) ` set (open_inodes s) \<longrightarrow>
      inode_open s sec None = (None, s) \<and>
      inode_open s sec (Some a) =
        (Some a,
         s\<lparr>live := insert a (live s), open_inodes := a # open_inodes s,
           io_log := io_log s @ [Rd sec],
           heap := (heap s)(a :=
             \<lparr>sector = sec, open_cnt = 1, removed = False, deny_write_cnt = 0,
              data = decode_inode (fs_device s sec)\<rparr>)\<rparr>)) \<and>
   (sec \<notin> (\<lambda>b. sector (heap s b)) ` set (open_inodes s) \<and> a \<notin> set (open_inodes s) \<and> 0 < N \<longrightarrow>
      (\<forall>k<N. fst (inode_open (((\<lambda>t. snd (inode_open t sec (Some a))) ^^ k) s) sec (Some a))
                = Some a) \<and>
      open_inodes (((\<lambda>t. inode_close t (Some a)) ^^ N)
                     (((\<lambda>t. snd (inode_open t sec (Some a))) ^^ N) s)) = open_inodes s \<and>
      sec \<notin> (\<lambda>b. sector (heap (((\<lambda>t. inode_close t (Some a)) ^^ N)
                     (((\<lambda>t. snd (inode_open t sec (Some a))) ^^ N) s)) b))
                ` set (open_inodes s))"
proof (intro conjI impI)
  show "registry_inv (inode_init s)" by (rule registry_inv_init)
next
  assume "registry_inv s \<and> (\<forall>b. m = Some b \<longrightarrow> b \<notin> set (open_inodes s))"
  then show "registry_inv (snd (inode_open s sec m))"
    by (intro registry_inv_open) auto
next
  assume "registry_inv s"
  then show "registry_inv (snd (inode_reopen s h))" by (rule registry_inv_reopen)
next
  assume "registry_inv s"
  then show "registry_inv (inode_close s h)" by (rule registry_inv_close)
next
  assume "registry_inv s \<and> a \<in> set (open_inodes s) \<and> sector (heap s a) = sec"
  then show "inode_open s sec m =
        (Some a, s\<lparr>heap := (heap s)(a := (heap s a)\<lparr>open_cnt := open_cnt (heap s a) + 1\<rparr>)\<rparr>)"
    by (intro open_present) auto
next
  assume "sec \<notin> (\<lambda>b. sector (heap s b)) ` set (open_inodes s)"
  then show "inode_open s sec None = (None, s)" by (rule open_absent(2))
next
  assume "sec \<notin> (\<lambda>b. sector (heap s b)) ` set (open_inodes s)"
  then show "inode_open s sec (Some a) =
        (Some a,
         s\<lparr>live := insert a (live s), open_inodes := a # open_inodes s,
           io_log := io_log s @ [Rd sec],
           heap := (heap s)(a :=
             \<lparr>sector = sec, open_cnt = 1, removed = False, deny_write_cnt = 0,
              data = decode_inode (fs_device s sec)\<rparr>)\<rparr>)"
    by (rule open_absent(1))
next
  assume h: "sec \<notin> (\<lambda>b. sector (heap s b)) ` set (open_inodes s) \<and> a \<notin> set (open_inodes s) \<and> 0 < N"
  then show "\<forall>k<N. fst (inode_open (((\<lambda>t. snd (inode_open t sec (Some a))) ^^ k) s) sec (Some a))
                = Some a"
    by (intro opens_then_closes(5)) auto
next
  assume h: "sec \<notin> (\<lambda>b. sector (heap s b)) ` set (open_inodes s) \<and> a \<notin> set (open_inodes s) \<and> 0 < N"
  then show "open_inodes (((\<lambda>t. inode_close t (Some a)) ^^ N)
                     (((\<lambda>t. snd (inode_open t sec (Some a))) ^^ N) s)) = open_inodes s"
    by (intro opens_then_closes(1)) auto
next
  assume h: "sec \<notin> (\<lambda>b. sector (heap s b)) ` set (open_inodes s) \<and> a \<notin> set (open_inodes s) \<and> 0 < N"
  then show "sec \<notin> (\<lambda>b. sector (heap (((\<lambda>t. inode_close t (Some a)) ^^ N)
                     (((\<lambda>t. snd (inode_open t sec (Some a))) ^^ N) s)) b))
                ` set (open_inodes s)"
    by (intro opens_then_closes(2)) auto
qed

theorem registry_single_handle_witness:
  "registry_inv sample_fs \<and>
   registry_inv (snd (inode_open sample_fs 9 (Some 8))) \<and>
   inode_open sample_fs 5 None =
     (Some 7, sample_fs\<lparr>heap := (heap sample_fs)(7 := sample_inode\<lparr>open_cnt := 2\<rparr>)\<rparr>) \<and>
   inode_open sample_fs 9 (Some 8) =
     (Some 8,
      sample_fs\<lparr>live := {8, 7}, open_inodes := [8, 7], io_log := [Rd 9],
        heap := (heap sample_fs)(8 :=
          \<lparr>sector = 9, open_cnt = 1, removed = False, deny_write_cnt = 0,
           data = decode_inode (replicate 512 0)\<rparr>)\<rparr>) \<and>
   open_inodes (((\<lambda>t. inode_close t (Some 8)) ^^ 2)
                  (((\<lambda>t. snd (inode_open t 9 (Some 8))) ^^ 2) sample_fs)) = [7]"
proof -
  have inv: "registry_inv sample_fs"
    by (simp add: registry_inv_def sample_fs_def)
  have fresh: "\<forall>b. Some (8::nat) = Some b \<longrightarrow> b \<notin> set (open_inodes sample_fs)"
    by (simp add: sample_fs_def)
  have present: "7 \<in> set (open_inodes sample_fs)" "sector (heap sample_fs 7) = 5"
    by (simp_all add: sample_fs_def sample_inode_def)
  have absent: "9 \<notin> (\<lambda>b. sector (heap sample_fs b)) ` set (open_inodes sample_fs)"
    "8 \<notin> set (open_inodes sample_fs)" "0 < (2::nat)"
    by (simp_all add: sample_fs_def sample_inode_def)
  have vals: "heap sample_fs 7 = sample_inode" "live sample_fs = {7}"
    "open_inodes sample_fs = [7]" "io_log sample_fs = []"
    "fs_device sample_fs 9 = replicate 512 0"
    by (simp_all add: sample_fs_def)
  note t1 = registry_single_handle [of sample_fs "Some 8" 9 None 7 2]
  note t2 = registry_single_handle [of sample_fs None 5 None 7 2]
  note t3 = registry_single_handle [of sample_fs None 9 None 8 2]
  from t1 inv fresh have a: "registry_inv (snd (inode_open sample_fs 9 (Some 8)))"
    by blast
  from t2 inv present have b: "inode_open sample_fs 5 None =
     (Some 7, sample_fs\<lparr>heap := (heap sample_fs)(7 :=
        (heap sample_fs 7)\<lparr>open_cnt := open_cnt (heap sample_fs 7) + 1\<rparr>)\<rparr>)"
    by blast
  from t3 absent have c: "inode_open sample_fs 9 (Some 8) =
        (Some 8,
         sample_fs\<lparr>live := insert 8 (live sample_fs), open_inodes := 8 # open_inodes sample_fs,
           io_log := io_log sample_fs @ [Rd 9],
           heap := (heap sample_fs)(8 :=
             \<lparr>sector = 9, open_cnt = 1, removed = False, deny_write_cnt = 0,
              data = decode_inode (fs_device sample_fs 9)\<rparr>)\<rparr>)"
    and d: "open_inodes (((\<lambda>t. inode_close t (Some 8)) ^^ 2)
                  (((\<lambda>t. snd (inode_open t 9 (Some 8))) ^^ 2) sample_fs)) = open_inodes sample_fs"
    by blast+
  show ?thesis
    using inv a
    by (simp add: b c d vals sample_inode_def)
qed


section \<open>Reading up to the end of the file\<close>

declare read_loop.simps [simp del]

lemma byte_to_sector_nonneg:
  assumes "0 \<le> pos"
  shows "\<exists>sec s1. byte_to_sector s inode pos = Some (sec, s1) \<and>
           fs_device s1 = fs_device s \<and> heap s1 = heap s \<and> free_map s1 = free_map s \<and>
           open_inodes s1 = open_inodes s \<and> live s1 = live s"
proof -
  from assms have "0 \<le> pos div 512" by simp
  then show ?thesis
    by (simp add: byte_to_sector_def Let_def sdiv_nonneg [OF assms] block_read_def
        split: prod.splits)
qed
























section \<open>Growth and writing on the new file\<close>

declare write_loop.simps [simp del]

lemma new_file_eq:
  "new_file = fresh_fs
     \<lparr>fs_device := (fs_device fresh_fs)(0 := encode_inode empty_disk),
      io_log := [Wr 0, Rd 0], open_inodes := [7], live := {7},
      heap := (heap fresh_fs)(7 :=
        \<lparr>sector = 0, open_cnt = 1, removed = False, deny_write_cnt = 0, data = empty_disk\<rparr>)\<rparr>"
  by (simp add: new_file_def inode_create_def inode_open_def block_write_def block_read_def
      fresh_fs_def Let_def decode_encode_inode empty_disk_def)

lemma new_file_fields:
  "heap new_file 7 = \<lparr>sector = 0, open_cnt = 1, removed = False, deny_write_cnt = 0, data = empty_disk\<rparr>"
  "free_map new_file = [1, 2, 3, 4]"
  "io_log new_file = [Wr 0, Rd 0]"
  by (simp_all add: new_file_eq fresh_fs_def)


lemma replicate_10: "replicate 10 x = [x, x, x, x, x, x, x, x, x, x]"
  by (simp add: numeral_eq_Suc)

lemma replicate_7: "replicate 7 x = [x, x, x, x, x, x, x]"
  by (simp add: numeral_eq_Suc)

lemma extension_1300: "file_extension new_file 7 1300 0 0 = Some grown_file"
  by (simp add: file_extension_def new_file_fields Let_def empty_disk_def numeral_3_eq_3
     free_map_allocate_def extension_fin_def block_write_def signed_divide_int_def
     signed_modulo_int_def grown_file_def grown_disk_def replicate_10 replicate_7)

lemma grown_fields:
  "data (heap grown_file 7) = grown_disk"
  "inode_length grown_file 7 = 2048"
  "io_log grown_file = [Wr 0, Rd 0, Wr 0]"
  "deny_write_cnt (heap grown_file 7) = 0"
  by (simp_all add: grown_file_def inode_length_def grown_disk_def)

lemma written_fields:
  "data (heap written_file 7) = grown_disk"
  "inode_length written_file 7 = 2048"
  "io_log written_file = [Wr 0, Rd 0, Wr 0, Wr 1, Wr 2]"
  "fs_device written_file 1 = replicate 512 0x41"
  "fs_device written_file 2 = replicate 512 0x41"
  "fs_device written_file 3 = replicate 512 0xAA"
  "fs_device written_file (- 1) = replicate 512 0xAA"
  by (simp_all add: written_file_def grown_file_def inode_length_def grown_disk_def
      new_file_eq fresh_fs_def)

lemma write_1300:
  "inode_write_at new_file 7 (replicate 1300 0x41) 1300 0 0 = Some (1024, written_file)"
  by (simp add: inode_write_at_def new_file_fields empty_disk_def extension_1300)
    (simp add: write_loop.simps byte_to_sector_def Let_def grown_fields signed_divide_int_def
      signed_modulo_int_def grown_disk_def block_write_def inode_length_def written_file_def)

lemma read_2000:
  "inode_read_at written_file 7 True 2000 0 =
     Some (2000, replicate 1024 0x41 @ replicate 976 0xAA,
           written_file\<lparr>io_log := io_log written_file @ [Rd 1, Rd 2, Rd 3, Rd (- 1)]\<rparr>)"
proof -
  have len: "sint (length_d (data (heap written_file 7))) = 2048"
    using written_fields(2) by (simp add: inode_length_def)
  show ?thesis
    by (simp add: inode_read_at_def len)
      (simp add: read_loop.simps byte_to_sector_def Let_def written_fields
        signed_divide_int_def signed_modulo_int_def grown_disk_def block_read_def
        inode_length_def replicate_add [symmetric])
qed

text \<open>
  C2: the scenario of the claim on the source. The write of 1300 bytes to the new file
  returns 1024, not 1300: the last chunk of 276 bytes is not a whole sector and the loop
  leaves there. \<open>file_extension\<close> has set the length to 2048, not 1300. Three sectors are
  in \<open>direct\<close>; the third still holds the bytes the device had. A read of 2000 bytes at
  offset 0 returns 2000 bytes, the last 464 of them from the sector \<open>-1\<close> that the unused
  \<open>direct[3]\<close> names.
\<close>

theorem write_1300_scenario:
  "inode_length new_file 7 = 0 \<and>
   inode_write_at new_file 7 (replicate 1300 0x41) 1300 0 0 = Some (1024, written_file) \<and>
   inode_length written_file 7 = 2048 \<and>
   direct (data (heap written_file 7)) = [1, 2, 3, - 1, - 1, - 1, - 1, - 1, - 1, - 1] \<and>
   fs_device written_file 1 = replicate 512 0x41 \<and>
   fs_device written_file 2 = replicate 512 0x41 \<and>
   fs_device written_file 3 = replicate 512 0xAA \<and>
   inode_read_at written_file 7 True 2000 0 =
     Some (2000, replicate 1024 0x41 @ replicate 976 0xAA,
           written_file\<lparr>io_log := io_log written_file @ [Rd 1, Rd 2, Rd 3, Rd (- 1)]\<rparr>)"
  by (simp add: write_1300 read_2000 written_fields grown_disk_def new_file_fields
      inode_length_def empty_disk_def replicate_7)

lemma read_third_sector:
  "inode_read_at written_file 7 True 512 1024 =
     Some (512, replicate 512 0xAA, written_file\<lparr>io_log := io_log written_file @ [Rd 3]\<rparr>)"
proof -
  have len: "sint (length_d (data (heap written_file 7))) = 2048"
    using written_fields(2) by (simp add: inode_length_def)
  show ?thesis
    by (simp add: inode_read_at_def len)
      (simp add: read_loop.simps byte_to_sector_def Let_def written_fields
        signed_divide_int_def signed_modulo_int_def grown_disk_def block_read_def
        inode_length_def)
qed

text \<open>
  C1: \<open>file_extension\<close> puts the three new sectors into \<open>direct\<close> and writes the descriptor
  sector only: the new sectors hold what the device had, here the bytes \<open>0xAA\<close>, and the
  third, which the write that follows does not reach, is read back as such.
\<close>

theorem growth_leaves_sectors_unzeroed:
  "file_extension new_file 7 1300 0 0 = Some grown_file \<and>
   direct (data (heap grown_file 7)) = [1, 2, 3, - 1, - 1, - 1, - 1, - 1, - 1, - 1] \<and>
   io_log grown_file = io_log new_file @ [Wr 0] \<and>
   fs_device grown_file 1 = replicate 512 0xAA \<and>
   fs_device grown_file 2 = replicate 512 0xAA \<and>
   fs_device grown_file 3 = replicate 512 0xAA \<and>
   inode_write_at new_file 7 (replicate 1300 0x41) 1300 0 0 = Some (1024, written_file) \<and>
   inode_read_at written_file 7 True 512 1024 =
     Some (512, replicate 512 0xAA, written_file\<lparr>io_log := io_log written_file @ [Rd 3]\<rparr>)"
  by (simp add: extension_1300 write_1300 read_third_sector grown_fields new_file_fields grown_disk_def
      replicate_7)
    (simp add: grown_file_def new_file_eq fresh_fs_def)


section \<open>Chunks that are not whole sectors\<close>

lemma write_loop_partial:
  assumes "0 \<le> offset" and "0 < sz" and "offset < inode_length s inode"
    and "offset mod 512 \<noteq> 0 \<or> sz < 512 \<or> inode_length s inode - offset < 512"
  shows "write_loop s inode buffer sz offset bytes_written None
           = map_option (\<lambda>(sec, s1). (bytes_written, s1)) (byte_to_sector s inode offset)"
proof -
  obtain sec s1 where b: "byte_to_sector s inode offset = Some (sec, s1)"
    and f1: "heap s1 = heap s"
    using byte_to_sector_nonneg [OF assms(1)] by blast
  have len1: "inode_length s1 inode = inode_length s inode"
    by (simp add: inode_length_def f1)
  have m: "0 \<le> offset mod 512" "offset mod 512 < 512" by simp_all
  show ?thesis
    using assms(2-4) m
    by (subst write_loop.simps)
      (auto simp add: b Let_def smod_nonneg [OF assms(1)] len1)
qed

text \<open>
  C6: what the source does at a chunk that is not a whole sector. The bounce buffer is
  never assigned, so at every such chunk the loop of \<open>inode_write_at\<close> leaves after the
  address translation: the sector is neither read nor written, and the count so far is
  returned. The claim's read, splice and write back do not happen.
\<close>

theorem write_partial_chunk_stops:
  "(0 \<le> offset \<and> 0 < sz \<and> offset < inode_length s inode \<and>
    (offset mod 512 \<noteq> 0 \<or> sz < 512 \<or> inode_length s inode - offset < 512) \<longrightarrow>
      write_loop s inode buffer sz offset bytes_written None
        = map_option (\<lambda>(sec, s1). (bytes_written, s1)) (byte_to_sector s inode offset)) \<and>
   (deny_write_cnt (heap s inode) = 0 \<and> 0 \<le> offset \<and> 0 < sz \<and>
    offset + sz \<le> inode_length s inode \<and> (offset mod 512 \<noteq> 0 \<or> sz < 512) \<longrightarrow>
      inode_write_at s inode buffer sz offset index0
        = map_option (\<lambda>(sec, s1). (0, s1)) (byte_to_sector s inode offset))"
proof (intro conjI impI)
  assume "0 \<le> offset \<and> 0 < sz \<and> offset < inode_length s inode \<and>
    (offset mod 512 \<noteq> 0 \<or> sz < 512 \<or> inode_length s inode - offset < 512)"
  then show "write_loop s inode buffer sz offset bytes_written None
        = map_option (\<lambda>(sec, s1). (bytes_written, s1)) (byte_to_sector s inode offset)"
    by (intro write_loop_partial) auto
next
  assume h: "deny_write_cnt (heap s inode) = 0 \<and> 0 \<le> offset \<and> 0 < sz \<and>
    offset + sz \<le> inode_length s inode \<and> (offset mod 512 \<noteq> 0 \<or> sz < 512)"
  have "write_loop s inode buffer sz offset 0 None
      = map_option (\<lambda>(sec, s1). (0, s1)) (byte_to_sector s inode offset)"
    by (rule write_loop_partial) (use h in auto)
  then show "inode_write_at s inode buffer sz offset index0
        = map_option (\<lambda>(sec, s1). (0, s1)) (byte_to_sector s inode offset)"
    using h by (simp add: inode_write_at_def inode_length_def)
qed

theorem write_partial_chunk_stops_witness:
  "byte_to_sector sample_fs 7 10 = Some (100, sample_fs) \<and>
   write_loop sample_fs 7 [1, 2, 3, 4, 5] 5 10 0 None = Some (0, sample_fs) \<and>
   inode_write_at sample_fs 7 [1, 2, 3, 4, 5] 5 10 0 = Some (0, sample_fs)"
proof -
  have h: "deny_write_cnt (heap sample_fs 7) = 0" "(0::int) \<le> 10" "(0::int) < 5"
    "10 + 5 \<le> inode_length sample_fs 7" "10 < inode_length sample_fs 7"
    "(10::int) mod 512 \<noteq> 0"
    by (simp_all add: sample_fs_def sample_inode_def sample_disk_def inode_length_def)
  have b: "byte_to_sector sample_fs 7 10 = Some (100, sample_fs)"
    by (simp add: byte_to_sector_def Let_def sdiv_nonneg sample_fs_def sample_inode_def
        sample_disk_def)
  from write_partial_chunk_stops [of 10 5 sample_fs 7 "[1, 2, 3, 4, 5]" 0 0] h
  have "write_loop sample_fs 7 [1, 2, 3, 4, 5] 5 10 0 None
        = map_option (\<lambda>(sec, s1). (0, s1)) (byte_to_sector sample_fs 7 10)"
    and "inode_write_at sample_fs 7 [1, 2, 3, 4, 5] 5 10 0
        = map_option (\<lambda>(sec, s1). (0, s1)) (byte_to_sector sample_fs 7 10)"
    by blast+
  with b show ?thesis by simp
qed


section \<open>Null handles\<close>

text \<open>
  C10: \<open>inode_close\<close> of a null handle changes no state, and \<open>inode_reopen\<close> of a null handle
  returns null and changes no state.
\<close>

theorem null_handle_noop:
  "inode_close s None = s \<and> inode_reopen s None = (None, s)"
  by (simp add: inode_close_def inode_reopen_def)

end
